theory Spec2Isabelle
  imports Complex_Main "HOL-Library.Char_ord" "HOL-Library.List_Lexorder"
begin

section \<open>Control de Gastos: the ledger core of app.js, legacy and unified variants\<close>

text \<open>
  The source file holds two variants of the same single-page application:
  the legacy one (database \<open>gastosDB\<close>, an \<open>expenses\<close> collection plus an income
  scalar) and the unified one (database \<open>gastosDB_v2\<close>, a \<open>transactions\<close>
  collection whose records carry a \<open>type\<close>). Functions that exist in both variants
  with different bodies keep the source name for the unified variant and carry the
  suffix \<open>_legacy\<close> for the legacy one.

  Conventions of the embedding.
  \<^item> Amounts are JavaScript numbers that hold integers (\<open>parseAmount\<close> rounds);
    they are modelled as \<open>int\<close>, and sums of amounts are exact, as they are in
    JavaScript below \<open>2^53\<close>.
  \<^item> A quotient of two amounts is not an integer: \<open>/\<close> and \<open>*\<close> on such values are
    IEEE-754 double operations, modelled by exact rational arithmetic followed by
    rounding to a 53-bit significand (\<open>fl\<close>).
  \<^item> Time stamps are milliseconds since the epoch (\<open>int\<close>); the local time zone is a
    fixed offset in minutes, with the sign of \<open>Date.prototype.getTimezoneOffset\<close>.
  \<^item> The DOM is not modelled: \<open>computeAndRender\<close> returns the values it writes.
  \<^item> Storage requests succeed; the only exception modelled is the \<open>TypeError\<close> of a
    property access on \<open>undefined\<close>.
\<close>

subsection \<open>Numbers\<close>

text \<open>The value of \<open>Number(input.value)\<close>: a finite number, or one of the three
  non-finite values.\<close>

datatype jsnum = Num rat | NaN | PosInf | NegInf

text \<open>\<open>Math.round\<close>: the nearest integer, a tie going up.\<close>

definition js_round :: "rat \<Rightarrow> int" where
  "js_round x = \<lfloor>x + 1 / 2\<rfloor>"

text \<open>
  \<^verbatim>\<open>function parseAmount(input) {
    const v = Number(input.value);
    return Number.isFinite(v) && v >= 0 ? Math.round(v) : 0;
  }\<close>
  The argument of the model is \<open>v\<close>.
\<close>

fun parseAmount :: "jsnum \<Rightarrow> int" where
  "parseAmount (Num v) = (if 0 \<le> v then js_round v else 0)"
| "parseAmount NaN = 0"
| "parseAmount PosInf = 0"
| "parseAmount NegInf = 0"

subsection \<open>Double-precision rounding\<close>

text \<open>Round to the nearest integer, a tie going to the even neighbour.\<close>

definition rne :: "rat \<Rightarrow> int" where
  "rne x = (let f = \<lfloor>x\<rfloor>; r = x - of_int f in
            if r < 1 / 2 then f
            else if 1 / 2 < r then f + 1
            else if even f then f else f + 1)"

text \<open>The binary exponent of a positive rational: \<open>2 powi binade x \<le> x < 2 powi (binade x + 1)\<close>.\<close>

function binade :: "rat \<Rightarrow> int" where
  "binade x = (if x \<le> 0 then 0
               else if 2 \<le> x then binade (x / 2) + 1
               else if x < 1 then binade (x * 2) - 1
               else 0)"
  by pat_completeness auto
termination
proof (relation "measure (\<lambda>x. if 1 \<le> x then nat \<lfloor>x\<rfloor> else nat \<lceil>1 / x\<rceil>)", goal_cases)
  case 1
  show ?case by simp
next
  case (2 x)
  then have "\<lfloor>x / 2\<rfloor> < \<lfloor>x\<rfloor>" by linarith
  with 2 show ?case by auto
next
  case (3 x)
  then have x: "0 < x" "x < 1" by auto
  show ?case
  proof (cases "1 \<le> x * 2")
    case True
    have "\<lfloor>x * 2\<rfloor> = 1" using x True by linarith
    moreover have "1 < 1 / x" using x by simp
    then have "2 \<le> \<lceil>1 / x\<rceil>" by linarith
    ultimately show ?thesis using x True by auto
  next
    case False
    then have "2 < 1 / x" using x by (simp add: field_simps)
    moreover have "1 / (x * 2) = (1 / x) / 2" by simp
    ultimately have "\<lceil>1 / (x * 2)\<rceil> < \<lceil>1 / x\<rceil>" by linarith
    moreover have "0 < \<lceil>1 / x\<rceil>" using x by (simp add: ceiling_less_iff)
    ultimately show ?thesis using x False by auto
  qed
qed

declare binade.simps [simp del]

text \<open>
  The double nearest to a rational: the value is scaled so that its significand has
  53 bits, rounded to an integer (ties to even) and scaled back. The exponent range is
  not bounded: the quotients and products of the program stay far inside it.
\<close>

definition fl :: "rat \<Rightarrow> rat" where
  "fl x = (if x = 0 then 0
           else let u = 2 powi (binade \<bar>x\<bar> - 52) in of_int (rne (x / u)) * u)"

definition fdiv :: "rat \<Rightarrow> rat \<Rightarrow> rat" where
  "fdiv x y = fl (x / y)"

definition fmul :: "rat \<Rightarrow> rat \<Rightarrow> rat" where
  "fmul x y = fl (x * y)"

subsection \<open>Strings\<close>

text \<open>
  \<open>String.prototype.localeCompare\<close>, by code units. The program only compares the
  \<open>date\<close> fields of records, which are \<open>YYYY-MM-DD\<close> strings; on strings of this one
  layout every collation agrees with the code-unit order.
\<close>

definition localeCompare :: "string \<Rightarrow> string \<Rightarrow> int" where
  "localeCompare a b = (if a < b then - 1 else if a = b then 0 else 1)"

text \<open>White space as \<open>String.prototype.trim\<close> reads it, for 8-bit code units.\<close>

definition js_space :: "char \<Rightarrow> bool" where
  "js_space c = ((of_char c :: nat) \<in> {9, 10, 11, 12, 13, 32, 160})"

definition trim :: "string \<Rightarrow> string" where
  "trim s = rev (dropWhile js_space (rev (dropWhile js_space s)))"

text \<open>
  \<open>Array.prototype.sort\<close> with a comparator: a stable insertion sort; \<open>x\<close> stays before
  \<open>y\<close> when \<open>cmp x y \<le> 0\<close>.
\<close>

fun insert_cmp :: "('a \<Rightarrow> 'a \<Rightarrow> int) \<Rightarrow> 'a \<Rightarrow> 'a list \<Rightarrow> 'a list" where
  "insert_cmp cmp x [] = [x]"
| "insert_cmp cmp x (y # ys) = (if cmp x y \<le> 0 then x # y # ys else y # insert_cmp cmp x ys)"

definition js_sort :: "('a \<Rightarrow> 'a \<Rightarrow> int) \<Rightarrow> 'a list \<Rightarrow> 'a list" where
  "js_sort cmp xs = foldr (insert_cmp cmp) xs []"

text \<open>\<open>Array.prototype.findIndex\<close>; \<open>None\<close> stands for \<open>-1\<close>.\<close>

fun findIndex :: "('a \<Rightarrow> bool) \<Rightarrow> 'a list \<Rightarrow> nat option" where
  "findIndex p [] = None"
| "findIndex p (x # xs) = (if p x then Some 0 else map_option Suc (findIndex p xs))"

subsection \<open>Dates\<close>

text \<open>
  The time values of ECMAScript's \<open>Date\<close>: days are counted from 1970-01-01 in the
  proleptic Gregorian calendar. \<open>days_from_civil\<close> takes a month in \<open>1..12\<close>.
\<close>

definition msPerDay :: int where
  "msPerDay = 86400000"

definition days_from_civil :: "int \<Rightarrow> int \<Rightarrow> int \<Rightarrow> int" where
  "days_from_civil y m d =
     (let y' = (if m \<le> 2 then y - 1 else y);
          mp = (if 2 < m then m - 3 else m + 9)
      in 365 * y' + y' div 4 - y' div 100 + y' div 400 + (153 * mp + 2) div 5 + d - 1 - 719468)"

definition civil_from_days :: "int \<Rightarrow> int \<times> int \<times> int" where
  "civil_from_days z =
     (let z' = z + 719468;
          n400 = z' div 146097;
          d0 = z' mod 146097;
          n100 = min 3 (d0 div 36524);
          d1 = d0 - 36524 * n100;
          n4 = d1 div 1461;
          d2 = d1 mod 1461;
          n1 = min 3 (d2 div 365);
          doy = d2 - 365 * n1;
          mp = (5 * doy + 2) div 153;
          d = doy - (153 * mp + 2) div 5 + 1;
          m = (if mp < 10 then mp + 3 else mp - 9)
      in (400 * n400 + 100 * n100 + 4 * n4 + n1 + (if m \<le> 2 then 1 else 0), m, d))"

definition Day :: "int \<Rightarrow> int" where
  "Day t = t div msPerDay"

definition TimeWithinDay :: "int \<Rightarrow> int" where
  "TimeWithinDay t = t mod msPerDay"

definition YearFromTime :: "int \<Rightarrow> int" where
  "YearFromTime t = fst (civil_from_days (Day t))"

text \<open>Months are numbered from 0, as in JavaScript.\<close>

definition MonthFromTime :: "int \<Rightarrow> int" where
  "MonthFromTime t = fst (snd (civil_from_days (Day t))) - 1"

definition DateFromTime :: "int \<Rightarrow> int" where
  "DateFromTime t = snd (snd (civil_from_days (Day t)))"

definition MakeTime :: "int \<Rightarrow> int \<Rightarrow> int \<Rightarrow> int \<Rightarrow> int" where
  "MakeTime h mi s ms = h * 3600000 + mi * 60000 + s * 1000 + ms"

text \<open>\<open>MakeDay\<close> accepts any month and day number: month 12 is January of the next year,
  day 0 is the last day of the month before.\<close>

definition MakeDay :: "int \<Rightarrow> int \<Rightarrow> int \<Rightarrow> int" where
  "MakeDay y m d = days_from_civil (y + m div 12) (m mod 12 + 1) 1 + d - 1"

definition MakeDate :: "int \<Rightarrow> int \<Rightarrow> int" where
  "MakeDate day time = day * msPerDay + time"

text \<open>The run-time environment of one event handler: the clock and the time zone
  (\<open>tzOffset\<close> is UTC minus local time in minutes, 180 in Santiago's summer).\<close>

record env =
  now :: int
  tzOffset :: int

definition LocalTime :: "env \<Rightarrow> int \<Rightarrow> int" where
  "LocalTime ev t = t - tzOffset ev * 60000"

definition UTC :: "env \<Rightarrow> int \<Rightarrow> int" where
  "UTC ev t = t + tzOffset ev * 60000"

text \<open>\<open>new Date(y, m, d, h, mi, s, ms)\<close>: the fields are local time; a year in \<open>0..99\<close>
  means \<open>1900 + y\<close>.\<close>

definition Date_local :: "env \<Rightarrow> int \<Rightarrow> int \<Rightarrow> int \<Rightarrow> int \<Rightarrow> int \<Rightarrow> int \<Rightarrow> int \<Rightarrow> int" where
  "Date_local ev y m d h mi s ms =
     UTC ev (MakeDate (MakeDay (if 0 \<le> y \<and> y \<le> 99 then 1900 + y else y) m d) (MakeTime h mi s ms))"

definition getFullYear :: "env \<Rightarrow> int \<Rightarrow> int" where
  "getFullYear ev t = YearFromTime (LocalTime ev t)"

definition getMonth :: "env \<Rightarrow> int \<Rightarrow> int" where
  "getMonth ev t = MonthFromTime (LocalTime ev t)"

definition getDate :: "env \<Rightarrow> int \<Rightarrow> int" where
  "getDate ev t = DateFromTime (LocalTime ev t)"

definition setHours :: "env \<Rightarrow> int \<Rightarrow> int \<Rightarrow> int \<Rightarrow> int \<Rightarrow> int \<Rightarrow> int" where
  "setHours ev t h mi s ms = UTC ev (MakeDate (Day (LocalTime ev t)) (MakeTime h mi s ms))"

definition setDate :: "env \<Rightarrow> int \<Rightarrow> int \<Rightarrow> int" where
  "setDate ev t dt =
     (let l = LocalTime ev t
      in UTC ev (MakeDate (MakeDay (YearFromTime l) (MonthFromTime l) dt) (TimeWithinDay l)))"

text \<open>
  \<open>new Date(dateISO)\<close> for the date-only form \<open>YYYY-MM-DD\<close>, which is what a date input
  yields: midnight UTC of that day. Every other string is an invalid date here
  (\<open>None\<close>); comparisons with an invalid date are false.
\<close>

definition is_digit :: "char \<Rightarrow> bool" where
  "is_digit c = (CHR ''0'' \<le> c \<and> c \<le> CHR ''9'')"

definition digit_val :: "char \<Rightarrow> int" where
  "digit_val c = int (of_char c) - 48"

definition Date_parse :: "string \<Rightarrow> int option" where
  "Date_parse s =
     (case s of
        [y1, y2, y3, y4, h1, m1, m2, h2, d1, d2] \<Rightarrow>
          (let y = 1000 * digit_val y1 + 100 * digit_val y2 + 10 * digit_val y3 + digit_val y4;
               m = 10 * digit_val m1 + digit_val m2;
               d = 10 * digit_val d1 + digit_val d2
           in if list_all is_digit [y1, y2, y3, y4, m1, m2, d1, d2] \<and> h1 = CHR ''-'' \<and> h2 = CHR ''-''
                 \<and> 1 \<le> m \<and> m \<le> 12 \<and> 1 \<le> d \<and> d \<le> 31
              then Some (MakeDate (MakeDay y (m - 1) d) 0)
              else None)
      | _ \<Rightarrow> None)"

text \<open>\<open>new Date().toISOString().slice(0, 10)\<close>: the UTC date of the clock.\<close>

definition digit_char :: "int \<Rightarrow> char" where
  "digit_char n = char_of (48 + nat (n mod 10))"

definition pad2 :: "int \<Rightarrow> string" where
  "pad2 n = [digit_char (n div 10), digit_char n]"

definition pad4 :: "int \<Rightarrow> string" where
  "pad4 n = pad2 (n div 100) @ pad2 n"

definition todayStr :: "env \<Rightarrow> string" where
  "todayStr ev =
     (let y = YearFromTime (now ev); m = MonthFromTime (now ev) + 1; d = DateFromTime (now ev);
          md = ''-'' @ pad2 m @ ''-'' @ pad2 d
      in if 0 \<le> y \<and> y \<le> 9999 then pad4 y @ md
         else take 10 ((if y < 0 then ''-'' else ''+'') @ pad2 (\<bar>y\<bar> div 10000) @ pad4 \<bar>y\<bar> @ md))"

definition endOfDay :: "env \<Rightarrow> int \<Rightarrow> int" where
  "endOfDay ev d = setHours ev d 23 59 59 999"

definition startOfDay :: "env \<Rightarrow> int \<Rightarrow> int" where
  "startOfDay ev d = setHours ev d 0 0 0 0"

text \<open>
  \<^verbatim>\<open>function within(dateISO, start, end) {
    const t = new Date(dateISO);
    return t >= start && t <= end;
  }\<close>
  (\<open>within\<close> is reserved notation of the library, hence the suffix.)
\<close>

definition within_js :: "string \<Rightarrow> int \<Rightarrow> int \<Rightarrow> bool" where
  "within_js dateISO start end' =
     (case Date_parse dateISO of None \<Rightarrow> False | Some t \<Rightarrow> start \<le> t \<and> t \<le> end')"

record date_range =
  start :: int
  end' :: int

record ranges_t =
  today :: date_range
  week :: date_range
  fortnight :: date_range
  month :: date_range

text \<open>
  \<^verbatim>\<open>function ranges() {
    const now = new Date();
    const today = { start: startOfDay(now), end: endOfDay(now) };
    const weekEnd = endOfDay(now);
    const weekStart = new Date(weekEnd); weekStart.setDate(weekStart.getDate() - 6);
    weekStart.setHours(0,0,0,0);
    const y = now.getFullYear(); const m = now.getMonth(); const d = now.getDate();
    const fortnight = d <= 15
      ? { start: new Date(y, m, 1, 0,0,0,0), end: new Date(y, m, 15, 23,59,59,999) }
      : { start: new Date(y, m, 16, 0,0,0,0), end: new Date(y, m + 1, 0, 23,59,59,999) };
    const month = { start: new Date(y, m, 1, 0,0,0,0), end: new Date(y, m + 1, 0, 23,59,59,999) };
    return { today, week: { start: weekStart, end: weekEnd }, fortnight, month };
  }\<close>
\<close>

definition ranges :: "env \<Rightarrow> ranges_t" where
  "ranges ev =
     (let today = \<lparr>start = startOfDay ev (now ev), end' = endOfDay ev (now ev)\<rparr>;
          weekEnd = endOfDay ev (now ev);
          weekStart = setHours ev (setDate ev weekEnd (getDate ev weekEnd - 6)) 0 0 0 0;
          y = getFullYear ev (now ev); m = getMonth ev (now ev); d = getDate ev (now ev);
          fortnight =
            (if d \<le> 15
             then \<lparr>start = Date_local ev y m 1 0 0 0 0, end' = Date_local ev y m 15 23 59 59 999\<rparr>
             else \<lparr>start = Date_local ev y m 16 0 0 0 0, end' = Date_local ev y (m + 1) 0 23 59 59 999\<rparr>);
          month = \<lparr>start = Date_local ev y m 1 0 0 0 0, end' = Date_local ev y (m + 1) 0 23 59 59 999\<rparr>
      in \<lparr>today = today, week = \<lparr>start = weekStart, end' = weekEnd\<rparr>,
          fortnight = fortnight, month = month\<rparr>)"

subsection \<open>Records of the ledger\<close>

text \<open>An attachment reference \<open>{ storeId, kind, name, type }\<close>, as a record holds it.\<close>

record attachment_ref =
  storeId :: nat
  kind :: string
  ref_name :: string
  ref_type :: string

text \<open>A record of the legacy \<open>expenses\<close> collection:
  \<open>{ id, name, amount, date, attachments, created }\<close>.\<close>

record expense =
  eid :: nat
  name :: string
  amount :: int
  date :: string
  attachments :: "attachment_ref list"
  created :: int

text \<open>A record of the unified \<open>transactions\<close> collection: the same fields and
  \<open>type\<close>, the string \<open>expense\<close> or \<open>income\<close>.\<close>

record tx = expense +
  ttype :: string

text \<open>A record of the \<open>attachments\<close> collection: \<open>{ id, blob, name, type, created }\<close>.\<close>

record attachment =
  aid :: nat
  blob :: string
  aname :: string
  atype :: string
  acreated :: int

text \<open>A file chosen in a file input.\<close>

record js_file =
  fname :: string
  ftype :: string
  fdata :: string

subsection \<open>Object stores\<close>

text \<open>
  An IndexedDB object store with \<open>keyPath: 'id'\<close> and \<open>autoIncrement: true\<close>: the key
  generator and the rows in key order. The generator starts at 1.
\<close>

record 'a ostore =
  nextKey :: nat
  rows :: "(nat \<times> 'a) list"

definition empty_os :: "'a ostore" where
  "empty_os = \<lparr>nextKey = 1, rows = []\<rparr>"

fun insert_row :: "nat \<Rightarrow> 'a \<Rightarrow> (nat \<times> 'a) list \<Rightarrow> (nat \<times> 'a) list" where
  "insert_row k v [] = [(k, v)]"
| "insert_row k v ((k', v') # rs) =
     (if k < k' then (k, v) # (k', v') # rs
      else if k = k' then (k, v) # rs
      else (k', v') # insert_row k v rs)"

text \<open>\<open>add\<close> of a value without an id: the store takes the next key and writes it
  into the stored value; \<open>mk k\<close> is the value with id \<open>k\<close>.\<close>

definition os_add :: "'a ostore \<Rightarrow> (nat \<Rightarrow> 'a) \<Rightarrow> nat \<times> 'a ostore" where
  "os_add st mk =
     (let k = nextKey st in (k, st\<lparr>nextKey := k + 1, rows := insert_row k (mk k) (rows st)\<rparr>))"

text \<open>\<open>put\<close> of a value whose id is \<open>k\<close>.\<close>

definition os_put :: "'a ostore \<Rightarrow> nat \<Rightarrow> 'a \<Rightarrow> 'a ostore" where
  "os_put st k v = st\<lparr>nextKey := max (nextKey st) (k + 1), rows := insert_row k v (rows st)\<rparr>"

definition os_get :: "'a ostore \<Rightarrow> nat \<Rightarrow> 'a option" where
  "os_get st k = map_of (rows st) k"

definition os_delete :: "'a ostore \<Rightarrow> nat \<Rightarrow> 'a ostore" where
  "os_delete st k = st\<lparr>rows := filter (\<lambda>r. fst r \<noteq> k) (rows st)\<rparr>"

definition os_getAll :: "'a ostore \<Rightarrow> 'a list" where
  "os_getAll st = map snd (rows st)"

text \<open>The databases: both variants have \<open>attachments\<close>; the legacy one adds \<open>expenses\<close>
  and \<open>meta\<close> (rows \<open>{ key, value }\<close>), the unified one \<open>transactions\<close>.\<close>

record attach_db =
  attachments_os :: "attachment ostore"

record legacy_db = attach_db +
  expenses_os :: "expense ostore"
  meta_os :: "(string \<times> int) list"

record unified_db = attach_db +
  transactions_os :: "tx ostore"

text \<open>
  What the browser keeps for the origin: the databases by name. \<open>indexedDB.open(name, 1)\<close>
  creates the database when there is none and then runs \<open>onupgradeneeded\<close>, where no
  store exists yet, so that every \<open>contains\<close> test is false and every store is created
  empty; it opens an existing database of version 1 as it is.
\<close>

record storage =
  gastosDB :: "legacy_db option"
  gastosDB_v2 :: "unified_db option"

definition dbp_open_legacy :: "storage \<Rightarrow> legacy_db \<times> storage" where
  "dbp_open_legacy st =
     (case gastosDB st of
        Some db \<Rightarrow> (db, st)
      | None \<Rightarrow>
          (let db = \<lparr>attachments_os = empty_os, expenses_os = empty_os, meta_os = []\<rparr>
           in (db, st\<lparr>gastosDB := Some db\<rparr>)))"

definition dbp_open :: "storage \<Rightarrow> unified_db \<times> storage" where
  "dbp_open st =
     (case gastosDB_v2 st of
        Some db \<Rightarrow> (db, st)
      | None \<Rightarrow>
          (let db = \<lparr>attachments_os = empty_os, transactions_os = empty_os\<rparr>
           in (db, st\<lparr>gastosDB_v2 := Some db\<rparr>)))"

subsection \<open>Aggregation\<close>

text \<open>The comparator of every sort of the mirror:
  \<open>(a, b) => b.date.localeCompare(a.date) || b.id - a.id\<close>.\<close>

definition by_date_id_desc :: "'a expense_scheme \<Rightarrow> 'a expense_scheme \<Rightarrow> int" where
  "by_date_id_desc a b =
     (if localeCompare (date b) (date a) \<noteq> 0 then localeCompare (date b) (date a)
      else int (eid b) - int (eid a))"

text \<open>\<open>xs.reduce((s, t) => s + t.amount, 0)\<close>.\<close>

definition sum_amounts :: "'a expense_scheme list \<Rightarrow> int" where
  "sum_amounts xs = fold (\<lambda>t s. s + amount t) xs 0"

text \<open>\<open>Map.prototype.set\<close> on a map kept in insertion order.\<close>

fun map_set :: "'k \<Rightarrow> 'v \<Rightarrow> ('k \<times> 'v) list \<Rightarrow> ('k \<times> 'v) list" where
  "map_set k v [] = [(k, v)]"
| "map_set k v ((k', v') # m) = (if k = k' then (k, v) # m else (k', v') # map_set k v m)"

text \<open>
  \<^verbatim>\<open>function groupByDate(txs) {
    const map = new Map();
    for (const t of txs) {
      const k = t.date;
      map.set(k, (map.get(k) || 0) + (t.type === 'expense' ? t.amount : 0));
    }
    return Array.from(map.entries()).sort((a,b)=>a[0].localeCompare(b[0]));
  }\<close>
\<close>

definition map_get0 :: "(string \<times> int) list \<Rightarrow> string \<Rightarrow> int" where
  "map_get0 m k = (case map_of m k of None \<Rightarrow> 0 | Some v \<Rightarrow> v)"

definition groupByDate :: "tx list \<Rightarrow> (string \<times> int) list" where
  "groupByDate ts =
     js_sort (\<lambda>a b. localeCompare (fst a) (fst b))
       (fold (\<lambda>t m. map_set (date t)
                       (map_get0 m (date t) + (if ttype t = ''expense'' then amount t else 0)) m)
          ts [])"


text \<open>The height of one bar, in percent:
  \<open>Math.max(4, Math.round((v / max) * 100))\<close>.\<close>

definition bar_height :: "int \<Rightarrow> int \<Rightarrow> int" where
  "bar_height mx v = max 4 (js_round (fmul (fdiv (of_int v) (of_int mx)) 100))"

text \<open>
  \<^verbatim>\<open>function renderMiniChart() {
    const byDate = groupByDate(state.txs);
    const values = byDate.map(([, v]) => v);
    const max = Math.max(1, ...values);
    const last14 = byDate.slice(-14);
    for (const [, v] of last14) {
      const h = Math.max(4, Math.round((v / max) * 100));
      ... bar.style.height = h + '%'; ...
    }
  }\<close>
  The model returns the heights of the bars in the order they are appended.
\<close>

definition renderMiniChart :: "tx list \<Rightarrow> int list" where
  "renderMiniChart ts =
     (let byDate = groupByDate ts;
          values = map snd byDate;
          mx = fold max values 1;
          last14 = drop (length byDate - 14) byDate
      in map (\<lambda>p. bar_height mx (snd p)) last14)"


text \<open>\<open>(incomeSum > 0) ? Math.min(100, Math.round((expenseSum / incomeSum) * 100)) : 0\<close>.\<close>

definition ratio_of :: "int \<Rightarrow> int \<Rightarrow> int" where
  "ratio_of incomeSum expenseSum =
     (if 0 < incomeSum
      then min 100 (js_round (fmul (fdiv (of_int expenseSum) (of_int incomeSum)) 100))
      else 0)"

text \<open>The in-memory state of the unified variant, \<open>{ txs, editId }\<close>, and of the legacy
  one, \<open>{ expenses, income, filtered, period, editId }\<close>.\<close>

record edit_state =
  editId :: "nat option"

record state = edit_state +
  txs :: "tx list"

record state_legacy = edit_state +
  expenses :: "expense list"
  income :: int
  filtered :: "expense list"
  period :: string

text \<open>What \<open>computeAndRender\<close> of the unified variant writes to the page.\<close>

record view =
  incomeDisplay :: int
  spentDisplay :: int
  availableDisplay :: int
  progressBar :: int
  statTotal :: int
  statToday :: int
  statWeek :: int
  statFortnight :: int
  statMonth :: int
  chartBars :: "int list"

text \<open>\<open>sumRange\<close> of \<open>computeAndRender\<close>:
  \<^verbatim>\<open>state.txs.filter(t => t.type === 'expense' && within(t.date, rg.start, rg.end))
           .reduce((s, t) => s + t.amount, 0)\<close>\<close>

definition sumRange :: "tx list \<Rightarrow> date_range \<Rightarrow> int" where
  "sumRange ts rg =
     sum_amounts (filter (\<lambda>t. ttype t = ''expense'' \<and> within_js (date t) (start rg) (end' rg)) ts)"

definition computeAndRender :: "env \<Rightarrow> state \<Rightarrow> view" where
  "computeAndRender ev s =
     (let incomeSum = sum_amounts (filter (\<lambda>t. ttype t = ''income'') (txs s));
          expenseSum = sum_amounts (filter (\<lambda>t. ttype t = ''expense'') (txs s));
          available = incomeSum - expenseSum;
          ratio = ratio_of incomeSum expenseSum;
          r = ranges ev
      in \<lparr>incomeDisplay = incomeSum, spentDisplay = expenseSum, availableDisplay = available,
          progressBar = ratio, statTotal = expenseSum,
          statToday = sumRange (txs s) (today r), statWeek = sumRange (txs s) (week r),
          statFortnight = sumRange (txs s) (fortnight r), statMonth = sumRange (txs s) (month r),
          chartBars = renderMiniChart (txs s)\<rparr>)"

subsection \<open>The mutation pipeline\<close>

text \<open>The only exception of the model: a property access on \<open>undefined\<close>.\<close>

datatype error = TypeError

text \<open>The fields of the create form and of the edit dialog, as the handlers read them;
  the unified variant adds the type and, in the dialog, two file inputs.\<close>

record expense_form =
  f_name :: string
  f_amount :: jsnum
  f_date :: string
  f_photo :: "js_file option"
  f_document :: "js_file option"

record tx_form = expense_form +
  f_type :: string

record edit_form =
  e_name :: string
  e_amount :: jsnum
  e_date :: string

record tx_edit_form = edit_form +
  e_type :: string
  e_photo :: "js_file option"
  e_document :: "js_file option"

text \<open>
  \<^verbatim>\<open>const id = await dbp.add('attachments',
      { blob: f, name: f.name, type: f.type, created: Date.now() });
  attachmentRefs.push({ storeId: id, kind: k, name: f.name, type: f.type });\<close>
\<close>

definition add_attachment ::
  "env \<Rightarrow> js_file \<Rightarrow> string \<Rightarrow> 'a attach_db_scheme \<Rightarrow> attachment_ref \<times> 'a attach_db_scheme" where
  "add_attachment ev f k db =
     (let (i, os) = os_add (attachments_os db)
                      (\<lambda>i. \<lparr>aid = i, blob = fdata f, aname = fname f, atype = ftype f,
                             acreated = now ev\<rparr>)
      in (\<lparr>storeId = i, kind = k, ref_name = fname f, ref_type = ftype f\<rparr>,
          db\<lparr>attachments_os := os\<rparr>))"

text \<open>The photo first, then the document, each only when a file was chosen.\<close>

definition add_files ::
  "env \<Rightarrow> js_file option \<Rightarrow> js_file option \<Rightarrow> 'a attach_db_scheme
     \<Rightarrow> attachment_ref list \<times> 'a attach_db_scheme" where
  "add_files ev photoFile docFile db =
     (let (refs1, db1) =
            (case photoFile of
               None \<Rightarrow> ([], db)
             | Some f \<Rightarrow> (let (r, d) = add_attachment ev f ''photo'' db in ([r], d)));
          (refs2, db2) =
            (case docFile of
               None \<Rightarrow> (refs1, db1)
             | Some f \<Rightarrow> (let (r, d) = add_attachment ev f ''document'' db1 in (refs1 @ [r], d)))
      in (refs2, db2))"

text \<open>
  \<^verbatim>\<open>async function loadAll() {
    const txs = await dbp.getAll('transactions');
    state.txs = txs.sort((a, b) => b.date.localeCompare(a.date) || b.id - a.id);
    computeAndRender();
  }\<close>
\<close>

definition loadAll :: "unified_db \<Rightarrow> state \<Rightarrow> state" where
  "loadAll db s = s\<lparr>txs := js_sort by_date_id_desc (os_getAll (transactions_os db))\<rparr>"

text \<open>
  \<^verbatim>\<open>async function onAddTx(e) {
    const type = $('#type').value;
    const name = $('#name').value.trim();
    const amount = parseAmount($('#amount'));
    const date = $('#date').value || todayStr();
    if (!name || amount <= 0) return;
    ... the two attachments ...
    const tx = { type, name, amount, date, attachments: attachmentRefs, created: Date.now() };
    const id = await dbp.add('transactions', tx);
    tx.id = id;
    state.txs.unshift(tx);
    ... computeAndRender();
  }\<close>
\<close>

definition onAddTx :: "env \<Rightarrow> tx_form \<Rightarrow> state \<times> unified_db \<Rightarrow> state \<times> unified_db" where
  "onAddTx ev form sd =
     (let (s, db) = sd;
          type = f_type form;
          nm = trim (f_name form);
          amt = parseAmount (f_amount form);
          dt = (if f_date form = [] then todayStr ev else f_date form)
      in if nm = [] \<or> amt \<le> 0 then (s, db)
         else
           (let (attachmentRefs, db1) = add_files ev (f_photo form) (f_document form) db;
                mk = (\<lambda>i. \<lparr>eid = i, name = nm, amount = amt, date = dt,
                            attachments = attachmentRefs, created = now ev, ttype = type\<rparr>);
                (i, os) = os_add (transactions_os db1) mk
            in (s\<lparr>txs := mk i # txs s\<rparr>, db1\<lparr>transactions_os := os\<rparr>)))"

text \<open>\<open>openEditDialog(tx)\<close> stages a record for edit.\<close>

definition openEditDialog :: "'a expense_scheme \<Rightarrow> 'b edit_state_scheme \<Rightarrow> 'b edit_state_scheme" where
  "openEditDialog t s = s\<lparr>editId := Some (eid t)\<rparr>"

text \<open>\<open>!state.editId\<close>: \<open>null\<close> and 0 are falsy.\<close>

definition no_editId :: "'b edit_state_scheme \<Rightarrow> bool" where
  "no_editId s = (case editId s of None \<Rightarrow> True | Some i \<Rightarrow> i = 0)"

text \<open>
  \<open>updateTx\<close> of the unified variant, whose text ends after the assignment of the four
  fields:
  \<^verbatim>\<open>async function updateTx(ev) {
    if (!state.editId) return;
    const type = $('#editType').value;
    const name = $('#editName').value.trim();
    const amount = parseAmount($('#editAmount'));
    const date = $('#editDate').value || todayStr();
    if (!name || amount <= 0) return;
    const photoFile = $('#editPhoto').files[0] || null;
    const docFile = $('#editDocument').files[0] || null;
    const tx = await dbp.get('transactions', state.editId);
    tx.type = type; tx.name = name; tx.amount = amount; tx.date = date;
    ...\<close>
  What follows is the parameter \<open>rest\<close>. When the store has no record of that id,
  \<open>tx\<close> is \<open>undefined\<close> and the first assignment throws.
\<close>

definition updateTx ::
  "(tx \<Rightarrow> js_file option \<Rightarrow> js_file option \<Rightarrow> state \<times> unified_db \<Rightarrow> error + state \<times> unified_db)
     \<Rightarrow> env \<Rightarrow> tx_edit_form \<Rightarrow> state \<times> unified_db \<Rightarrow> error + state \<times> unified_db" where
  "updateTx rest ev form sd =
     (let (s, db) = sd in
      if no_editId s then Inr (s, db)
      else
        (let type = e_type form;
             nm = trim (e_name form);
             amt = parseAmount (e_amount form);
             dt = (if e_date form = [] then todayStr ev else e_date form)
         in if nm = [] \<or> amt \<le> 0 then Inr (s, db)
            else
              (case os_get (transactions_os db) (the (editId s)) of
                 None \<Rightarrow> Inl TypeError
               | Some t \<Rightarrow>
                   rest (t\<lparr>ttype := type, name := nm, amount := amt, date := dt\<rparr>)
                     (e_photo form) (e_document form) (s, db))))"

subsection \<open>The legacy variant\<close>

text \<open>
  \<^verbatim>\<open>function getPeriodRange(kind) {
    const now = new Date();
    if (kind === 'week') {
      const end = endOfDay(now);
      const start = new Date(end); start.setDate(start.getDate() - 6); start.setHours(0,0,0,0);
      return { start, end, label: ... };
    }
    if (kind === 'fortnight') { ... as in ranges ... }
    if (kind === 'month') { ... as in ranges ... }
    return { start: new Date(1970,0,1), end: endOfDay(now), label: 'Todo' };
  }\<close>
\<close>

definition getPeriodRange :: "env \<Rightarrow> string \<Rightarrow> date_range" where
  "getPeriodRange ev k =
     (let y = getFullYear ev (now ev); m = getMonth ev (now ev); d = getDate ev (now ev);
          e = endOfDay ev (now ev)
      in if k = ''week''
         then \<lparr>start = setHours ev (setDate ev e (getDate ev e - 6)) 0 0 0 0, end' = e\<rparr>
         else if k = ''fortnight''
         then (if d \<le> 15
               then \<lparr>start = Date_local ev y m 1 0 0 0 0, end' = Date_local ev y m 15 23 59 59 999\<rparr>
               else \<lparr>start = Date_local ev y m 16 0 0 0 0,
                     end' = Date_local ev y (m + 1) 0 23 59 59 999\<rparr>)
         else if k = ''month''
         then \<lparr>start = Date_local ev y m 1 0 0 0 0, end' = Date_local ev y (m + 1) 0 23 59 59 999\<rparr>
         else \<lparr>start = Date_local ev 1970 0 1 0 0 0 0, end' = e\<rparr>)"

text \<open>The legacy \<open>computeAndRender\<close> writes one field of the state:
  \<open>state.filtered = state.expenses.filter(e => within(e.date, start, end))\<close>;
  the chart it draws is \<open>renderMiniChart_legacy\<close> of that list.\<close>

definition computeAndRender_legacy :: "env \<Rightarrow> state_legacy \<Rightarrow> state_legacy" where
  "computeAndRender_legacy ev s =
     (let r = getPeriodRange ev (period s)
      in s\<lparr>filtered := filter (\<lambda>e. within_js (date e) (start r) (end' r)) (expenses s)\<rparr>)"

text \<open>
  \<^verbatim>\<open>async function loadAll() {
    const [expenses, metaIncome] = await Promise.all([
      dbp.getAll('expenses'), dbp.get('meta', 'income') ]);
    state.expenses = expenses.sort((a, b) => b.date.localeCompare(a.date) || b.id - a.id);
    state.income = metaIncome?.value || 0;
    computeAndRender();
  }\<close>
\<close>

definition loadAll_legacy :: "env \<Rightarrow> legacy_db \<Rightarrow> state_legacy \<Rightarrow> state_legacy" where
  "loadAll_legacy ev db s =
     computeAndRender_legacy ev
       (s\<lparr>expenses := js_sort by_date_id_desc (os_getAll (expenses_os db)),
          income := map_get0 (meta_os db) ''income''\<rparr>)"

text \<open>\<open>onAddExpense\<close>: as \<open>onAddTx\<close>, without a type, into \<open>expenses\<close>.\<close>

definition onAddExpense ::
  "env \<Rightarrow> expense_form \<Rightarrow> state_legacy \<times> legacy_db \<Rightarrow> state_legacy \<times> legacy_db" where
  "onAddExpense ev form sd =
     (let (s, db) = sd;
          nm = trim (f_name form);
          amt = parseAmount (f_amount form);
          dt = (if f_date form = [] then todayStr ev else f_date form)
      in if nm = [] \<or> amt \<le> 0 then (s, db)
         else
           (let (attachmentRefs, db1) = add_files ev (f_photo form) (f_document form) db;
                mk = (\<lambda>i. \<lparr>eid = i, name = nm, amount = amt, date = dt,
                            attachments = attachmentRefs, created = now ev\<rparr>);
                (i, os) = os_add (expenses_os db1) mk
            in (computeAndRender_legacy ev (s\<lparr>expenses := mk i # expenses s\<rparr>),
                db1\<lparr>expenses_os := os\<rparr>)))"

text \<open>
  \<^verbatim>\<open>async function updateExpense(ev) {
    if (!state.editId) return;
    const name = $('#editName').value.trim();
    const amount = parseAmount($('#editAmount'));
    const date = $('#editDate').value || todayStr();
    if (!name || amount <= 0) return;
    const e = await dbp.get('expenses', state.editId);
    e.name = name; e.amount = amount; e.date = date;
    await dbp.put('expenses', e);
    const idx = state.expenses.findIndex(x => x.id === e.id);
    state.expenses[idx] = e;
    state.expenses.sort((a,b)=> b.date.localeCompare(a.date) || b.id - a.id);
    ... computeAndRender();
  }\<close>
  With \<open>idx = -1\<close> the assignment sets a property that is no element, and the list of
  elements stays as it is.
\<close>

definition updateExpense ::
  "env \<Rightarrow> edit_form \<Rightarrow> state_legacy \<times> legacy_db \<Rightarrow> error + state_legacy \<times> legacy_db" where
  "updateExpense ev form sd =
     (let (s, db) = sd in
      if no_editId s then Inr (s, db)
      else
        (let nm = trim (e_name form);
             amt = parseAmount (e_amount form);
             dt = (if e_date form = [] then todayStr ev else e_date form)
         in if nm = [] \<or> amt \<le> 0 then Inr (s, db)
            else
              (case os_get (expenses_os db) (the (editId s)) of
                 None \<Rightarrow> Inl TypeError
               | Some e0 \<Rightarrow>
                   (let e = e0\<lparr>name := nm, amount := amt, date := dt\<rparr>;
                        db1 = db\<lparr>expenses_os := os_put (expenses_os db) (eid e) e\<rparr>;
                        es = (case findIndex (\<lambda>x. eid x = eid e) (expenses s) of
                                None \<Rightarrow> expenses s
                              | Some idx \<Rightarrow> (expenses s)[idx := e])
                    in Inr (computeAndRender_legacy ev
                              (s\<lparr>expenses := js_sort by_date_id_desc es\<rparr>), db1)))))"

text \<open>
  \<^verbatim>\<open>async function deleteExpense(id) {
    await dbp.delete('expenses', id);
    state.expenses = state.expenses.filter(e => e.id !== id);
    computeAndRender();
  }\<close>
\<close>

definition deleteExpense ::
  "env \<Rightarrow> nat \<Rightarrow> state_legacy \<times> legacy_db \<Rightarrow> state_legacy \<times> legacy_db" where
  "deleteExpense ev i sd =
     (let (s, db) = sd
      in (computeAndRender_legacy ev (s\<lparr>expenses := filter (\<lambda>e. eid e \<noteq> i) (expenses s)\<rparr>),
          db\<lparr>expenses_os := os_delete (expenses_os db) i\<rparr>))"

text \<open>The click handler of a receipt link: \<open>dbp.get('attachments', ref.storeId)\<close>.\<close>

definition resolveAttachment :: "'a attach_db_scheme \<Rightarrow> attachment_ref \<Rightarrow> attachment option" where
  "resolveAttachment db r = os_get (attachments_os db) (storeId r)"

subsection \<open>Notions used to state the properties\<close>

text \<open>The order the mirror is meant to have: by date descending, then by id descending,
  as the comparator of the sorts decides it.\<close>

definition mirror_sorted :: "'a expense_scheme list \<Rightarrow> bool" where
  "mirror_sorted xs = sorted_wrt (\<lambda>a b. by_date_id_desc a b \<le> 0) xs"

text \<open>The day number of the local calendar day of the clock, and the day number a date
  string denotes.\<close>

definition local_day :: "env \<Rightarrow> int" where
  "local_day ev = Day (LocalTime ev (now ev))"

definition date_day :: "string \<Rightarrow> int option" where
  "date_day s = map_option Day (Date_parse s)"


subsection \<open>Fixtures\<close>

text \<open>The clock of the examples: 2024-03-10, 13:00 UTC, which is 10:00 in Santiago
  (UTC-3), and the same instant seen from a machine on UTC.\<close>

definition santiago :: env where
  "santiago = \<lparr>now = 1710075600000, tzOffset = 180\<rparr>"

definition utc_machine :: env where
  "utc_machine = \<lparr>now = 1710075600000, tzOffset = 0\<rparr>"


text \<open>Scenario A: an income of 500000 and an expense of 120000 on the same day.\<close>

definition scenarioA :: state where
  "scenarioA = \<lparr>editId = None,
     txs = [\<lparr>eid = 2, name = ''super'', amount = 120000, date = ''2024-03-10'',
             attachments = [], created = 0, ttype = ''expense''\<rparr>,
            \<lparr>eid = 1, name = ''sueldo'', amount = 500000, date = ''2024-03-10'',
             attachments = [], created = 0, ttype = ''income''\<rparr>]\<rparr>"

text \<open>A fresh unified database and state, and a create form that leaves the date empty,
  so that the record gets the default date \<open>todayStr()\<close>.\<close>

definition empty_db :: unified_db where
  "empty_db = \<lparr>attachments_os = empty_os, transactions_os = empty_os\<rparr>"

definition empty_state :: state where
  "empty_state = \<lparr>editId = None, txs = []\<rparr>"

definition form_today :: tx_form where
  "form_today = \<lparr>f_name = ''super'', f_amount = Num 1000, f_date = [],
     f_photo = None, f_document = None, f_type = ''expense''\<rparr>"

definition created_today :: "env \<Rightarrow> state" where
  "created_today ev = fst (onAddTx ev form_today (empty_state, empty_db))"

definition after_first :: "state \<times> unified_db" where
  "after_first = onAddTx santiago form_today (empty_state, empty_db)"

text \<open>A second create, dated nine days before the first record.\<close>

definition after_backdated :: "state \<times> unified_db" where
  "after_backdated = onAddTx santiago (form_today\<lparr>f_date := ''2024-03-01''\<rparr>) after_first"

text \<open>A fresh legacy database and state; an expense created with a photo and a
  document (scenario D); the storage of an origin that only ever ran the legacy
  variant.\<close>

definition empty_legacy_db :: legacy_db where
  "empty_legacy_db = \<lparr>attachments_os = empty_os, expenses_os = empty_os, meta_os = []\<rparr>"

definition empty_state_legacy :: state_legacy where
  "empty_state_legacy =
     \<lparr>editId = None, expenses = [], income = 0, filtered = [], period = ''week''\<rparr>"

definition receipts_form :: expense_form where
  "receipts_form = \<lparr>f_name = ''farmacia'', f_amount = Num 8990, f_date = ''2024-03-10'',
     f_photo = Some \<lparr>fname = ''boleta.jpg'', ftype = ''image/jpeg'', fdata = ''JFIF''\<rparr>,
     f_document = Some \<lparr>fname = ''receta.pdf'', ftype = ''application/pdf'', fdata = ''PDF''\<rparr>\<rparr>"

definition with_receipts :: "state_legacy \<times> legacy_db" where
  "with_receipts = onAddExpense santiago receipts_form (empty_state_legacy, empty_legacy_db)"

definition legacy_only :: storage where
  "legacy_only = \<lparr>gastosDB = Some (snd with_receipts), gastosDB_v2 = None\<rparr>"

text \<open>Valid contents of the edit dialogs.\<close>

definition valid_edit :: edit_form where
  "valid_edit = \<lparr>e_name = ''farmacia'', e_amount = Num 9990, e_date = ''2024-03-09''\<rparr>"

definition valid_tx_edit :: tx_edit_form where
  "valid_tx_edit = \<lparr>e_name = ''super'', e_amount = Num 2000, e_date = ''2024-03-09'',
     e_type = ''expense'', e_photo = None, e_document = None\<rparr>"




section \<open>Properties\<close>

subsection \<open>Rounding\<close>







lemma js_round_nonneg: "0 \<le> x \<Longrightarrow> 0 \<le> js_round x"
  by (simp add: js_round_def)

text \<open>The double product is not the exact one: 29 of 200 is 14.5 percent exactly, the
  program computes 14.499999999999998 and shows 14.\<close>

lemma ratio_of_double_rounding: "ratio_of 200 29 = 14 \<and> js_round (29 / 200 * 100) = 15"
  by code_simp

subsection \<open>Balance\<close>

lemma fold_add_amount:
  "fold (\<lambda>t s. s + amount t) xs a = a + sum_list (map amount xs)"
  by (induction xs arbitrary: a) simp_all

lemma sum_amounts_sum_list: "sum_amounts xs = sum_list (map amount xs)"
  by (simp add: sum_amounts_def fold_add_amount)







text \<open>The available amount is not clamped: spending without income shows a negative
  balance.\<close>

lemma available_negative_example:
  "availableDisplay (computeAndRender santiago (scenarioA\<lparr>txs := [hd (txs scenarioA)]\<rparr>)) = - 120000"
  by code_simp

subsection \<open>Order of the mirror\<close>

lemma set_insert_cmp: "set (insert_cmp c x xs) = insert x (set xs)"
  by (induction xs) auto

lemma sorted_insert_cmp:
  assumes total: "\<And>a b. c a b \<le> 0 \<or> c b a \<le> 0"
    and trans: "\<And>a b d. c a b \<le> 0 \<Longrightarrow> c b d \<le> 0 \<Longrightarrow> c a d \<le> 0"
    and "sorted_wrt (\<lambda>a b. c a b \<le> 0) xs"
  shows "sorted_wrt (\<lambda>a b. c a b \<le> 0) (insert_cmp c x xs)"
  using assms(3)
proof (induction xs)
  case Nil
  then show ?case by simp
next
  case (Cons y ys)
  show ?case
  proof (cases "c x y \<le> 0")
    case True
    then have "\<forall>z\<in>set ys. c x z \<le> 0" using Cons.prems trans by auto
    then show ?thesis using True Cons.prems by simp
  next
    case False
    then have "c y x \<le> 0" using total by blast
    then show ?thesis using False Cons by (auto simp: set_insert_cmp)
  qed
qed

lemma sorted_js_sort:
  assumes "\<And>a b. c a b \<le> 0 \<or> c b a \<le> 0"
    and "\<And>a b d. c a b \<le> 0 \<Longrightarrow> c b d \<le> 0 \<Longrightarrow> c a d \<le> 0"
  shows "sorted_wrt (\<lambda>a b. c a b \<le> 0) (js_sort c xs)"
  unfolding js_sort_def
  by (induction xs) (simp_all add: sorted_insert_cmp [OF assms])


lemma by_date_id_desc_le:
  "(by_date_id_desc a b \<le> 0) = (date b < date a \<or> date a = date b \<and> eid b \<le> eid a)"
  by (auto simp: by_date_id_desc_def localeCompare_def)

lemma mirror_sorted_js_sort: "mirror_sorted (js_sort by_date_id_desc xs)"
  unfolding mirror_sorted_def
  by (rule sorted_js_sort) (auto simp: by_date_id_desc_le)

lemma loadAll_sorted: "mirror_sorted (txs (loadAll db s))"
  by (simp add: loadAll_def mirror_sorted_js_sort)

lemma loadAll_legacy_sorted: "mirror_sorted (expenses (loadAll_legacy ev db s))"
  by (simp add: loadAll_legacy_def computeAndRender_legacy_def Let_def mirror_sorted_js_sort)

lemma updateExpense_sorted:
  assumes "updateExpense ev form (s, db) = Inr (s', db')" "mirror_sorted (expenses s)"
  shows "mirror_sorted (expenses s')"
  using assms
  by (auto simp: updateExpense_def computeAndRender_legacy_def Let_def mirror_sorted_js_sort
      split: if_splits option.splits)

lemma deleteExpense_sorted:
  assumes "mirror_sorted (expenses s)"
  shows "mirror_sorted (expenses (fst (deleteExpense ev i (s, db))))"
  using assms
  by (simp add: deleteExpense_def computeAndRender_legacy_def Let_def mirror_sorted_def sorted_wrt_filter)

text \<open>
  C2. The mirror is not sorted after every mutation. \<open>loadAll\<close>, \<open>updateExpense\<close> and
  \<open>deleteExpense\<close> leave it sorted (the lemmas above); \<open>onAddTx\<close> puts the new record
  first without sorting. After a first record with the default date 2024-03-10, a
  create dated 2024-03-01 leaves the mirror as [2024-03-01, 2024-03-10], which is not
  in date-descending order; loading the same store again gives the other order. The
  legacy \<open>onAddExpense\<close> does the same.
\<close>

theorem create_backdated_breaks_order:
  "mirror_sorted (txs (fst after_first))
   \<and> map date (txs (fst after_backdated)) = [''2024-03-01'', ''2024-03-10'']
   \<and> \<not> mirror_sorted (txs (fst after_backdated))
   \<and> map date (txs (loadAll (snd after_backdated) (fst after_backdated)))
       = [''2024-03-10'', ''2024-03-01'']
   \<and> mirror_sorted (expenses (fst with_receipts))
   \<and> \<not> mirror_sorted (expenses (fst
         (onAddExpense santiago (receipts_form\<lparr>f_date := ''2024-03-01''\<rparr>) with_receipts)))"
  by code_simp


subsection \<open>The histogram\<close>


lemma fold_max_mono: "(a::int) \<le> b \<Longrightarrow> fold max xs a \<le> fold max xs b"
  by (induction xs arbitrary: a b) (auto intro!: max.mono)
























subsection \<open>Create\<close>

lemma parseAmount_nonneg: "0 \<le> parseAmount v"
  by (cases v) (simp_all add: js_round_nonneg)

lemma set_insert_row: "set (insert_row k v rs) \<subseteq> insert (k, v) (set rs)"
  by (induction rs) (auto split: if_splits)

text \<open>
  C7. A create whose trimmed name is empty or whose parsed amount is not positive
  returns the state and the database as they were: nothing is written. The parser
  never yields a negative amount; it maps negative and non-finite input, and zero, to
  0. A create keeps every stored amount positive.
\<close>

theorem create_rejects_invalid:
  "(trim (f_name form) = [] \<or> parseAmount (f_amount form) \<le> 0
      \<longrightarrow> onAddTx ev form (s, db) = (s, db))
   \<and> 0 \<le> parseAmount v
   \<and> (x < 0 \<longrightarrow> parseAmount (Num x) = 0)
   \<and> parseAmount NaN = 0 \<and> parseAmount PosInf = 0 \<and> parseAmount NegInf = 0
   \<and> parseAmount (Num 0) = 0
   \<and> ((\<forall>r\<in>set (rows (transactions_os db)). 0 < amount (snd r))
        \<longrightarrow> (\<forall>r\<in>set (rows (transactions_os (snd (onAddTx ev form (s, db))))). 0 < amount (snd r)))"
proof -
  have noop: "onAddTx ev form (s, db) = (s, db)"
    if "trim (f_name form) = [] \<or> parseAmount (f_amount form) \<le> 0"
    using that by (auto simp: onAddTx_def Let_def)
  have stored: "0 < amount (snd r)"
    if old: "\<forall>r\<in>set (rows (transactions_os db)). 0 < amount (snd r)"
      and r: "r \<in> set (rows (transactions_os (snd (onAddTx ev form (s, db)))))" for r
  proof (cases "trim (f_name form) = [] \<or> parseAmount (f_amount form) \<le> 0")
    case True
    then show ?thesis using old r noop by simp
  next
    case False
    obtain refs db1 where f: "add_files ev (f_photo form) (f_document form) db = (refs, db1)"
      by (cases "add_files ev (f_photo form) (f_document form) db")
    have same: "transactions_os db1 = transactions_os db"
      using f by (auto simp: add_files_def add_attachment_def os_add_def Let_def split: option.splits prod.splits)
    from r False f have "r \<in> set (insert_row (nextKey (transactions_os db1))
          \<lparr>eid = nextKey (transactions_os db1), name = trim (f_name form),
             amount = parseAmount (f_amount form),
             date = (if f_date form = [] then todayStr ev else f_date form),
             attachments = refs, created = now ev, ttype = f_type form\<rparr>
          (rows (transactions_os db1)))"
      by (simp add: onAddTx_def Let_def os_add_def split: prod.splits)
    then show ?thesis using set_insert_row old False same by fastforce
  qed
  have zero: "parseAmount (Num 0) = 0" by code_simp
  show ?thesis using noop stored zero by (simp add: parseAmount_nonneg)
qed


text \<open>A blank name, a zero and a negative amount: each create changes nothing.\<close>

theorem create_rejects_invalid_witness:
  "onAddTx santiago (form_today\<lparr>f_name := ''   ''\<rparr>) after_first = after_first
   \<and> onAddTx santiago (form_today\<lparr>f_amount := Num 0\<rparr>) after_first = after_first
   \<and> onAddTx santiago (form_today\<lparr>f_amount := Num (- 5)\<rparr>) after_first = after_first
   \<and> parseAmount (Num (- 5)) = 0
   \<and> list_all (\<lambda>r. 0 < amount (snd r)) (rows (transactions_os (snd after_backdated)))"
proof -
  have o: "\<forall>r\<in>set (rows (transactions_os (snd after_first))). 0 < amount (snd r)" by code_simp
  have st: "list_all (\<lambda>r. 0 < amount (snd r)) (rows (transactions_os (snd after_backdated)))"
    using create_rejects_invalid
      [of "form_today\<lparr>f_date := ''2024-03-01''\<rparr>" santiago "fst after_first" "snd after_first"] o
    by (simp add: after_backdated_def list_all_iff)
  have a: "trim (f_name (form_today\<lparr>f_name := ''   ''\<rparr>)) = []" by code_simp
  have b: "parseAmount (f_amount (form_today\<lparr>f_amount := Num 0\<rparr>)) \<le> 0" by code_simp
  have c: "parseAmount (f_amount (form_today\<lparr>f_amount := Num (- 5)\<rparr>)) \<le> 0" by code_simp
  have d: "((- 5) :: rat) < 0" by simp
  have "onAddTx santiago (form_today\<lparr>f_name := ''   ''\<rparr>) after_first = after_first"
    using create_rejects_invalid
      [of "form_today\<lparr>f_name := ''   ''\<rparr>" santiago "fst after_first" "snd after_first"] a
    by simp
  moreover have "onAddTx santiago (form_today\<lparr>f_amount := Num 0\<rparr>) after_first = after_first"
    using create_rejects_invalid
      [of "form_today\<lparr>f_amount := Num 0\<rparr>" santiago "fst after_first" "snd after_first"] b
    by simp
  moreover have "onAddTx santiago (form_today\<lparr>f_amount := Num (- 5)\<rparr>) after_first = after_first"
    using create_rejects_invalid
      [of "form_today\<lparr>f_amount := Num (- 5)\<rparr>" santiago "fst after_first" "snd after_first"] c
    by simp
  moreover have "parseAmount (Num (- 5)) = 0"
    using create_rejects_invalid [of form_today santiago empty_state empty_db NaN "- 5"] d
    by simp
  ultimately show ?thesis using st by simp
qed

subsection \<open>Delete and update\<close>

text \<open>
  C9. \<open>deleteExpense\<close> leaves the attachments collection as it was, so that every
  reference resolves as before; the record is gone from the store and from the mirror,
  and every other record stays.
\<close>

theorem delete_keeps_attachments:
  "attachments_os (snd (deleteExpense ev i (s, db))) = attachments_os db
   \<and> resolveAttachment (snd (deleteExpense ev i (s, db))) r = resolveAttachment db r
   \<and> os_get (expenses_os (snd (deleteExpense ev i (s, db)))) i = None
   \<and> i \<notin> fst ` set (rows (expenses_os (snd (deleteExpense ev i (s, db)))))
   \<and> (\<forall>e\<in>set (expenses (fst (deleteExpense ev i (s, db)))). eid e \<noteq> i)
   \<and> (\<forall>k. k \<noteq> i \<longrightarrow> os_get (expenses_os (snd (deleteExpense ev i (s, db)))) k = os_get (expenses_os db) k)"
proof -
  have g: "map_of (filter (\<lambda>r. fst r \<noteq> i) rs) k = (if k = i then None else map_of rs k)" for rs :: "(nat \<times> expense) list" and k
    by (induction rs) auto
  show ?thesis
    by (auto simp: deleteExpense_def computeAndRender_legacy_def Let_def resolveAttachment_def
        os_delete_def os_get_def g)
qed

text \<open>Scenario D: after the delete the listing is empty and both attachments are still
  read by their stored ids.\<close>

theorem delete_keeps_attachments_witness:
  "map eid (os_getAll (expenses_os (snd with_receipts))) = [1]
   \<and> map storeId (attachments (hd (expenses (fst with_receipts)))) = [1, 2]
   \<and> os_getAll (expenses_os (snd (deleteExpense santiago 1 with_receipts))) = []
   \<and> expenses (fst (deleteExpense santiago 1 with_receipts)) = []
   \<and> map_option blob (resolveAttachment (snd (deleteExpense santiago 1 with_receipts))
        (attachments (hd (expenses (fst with_receipts))) ! 0)) = Some ''JFIF''
   \<and> map_option blob (resolveAttachment (snd (deleteExpense santiago 1 with_receipts))
        (attachments (hd (expenses (fst with_receipts))) ! 1)) = Some ''PDF''"
proof -
  note t = delete_keeps_attachments [of santiago 1 "fst with_receipts" "snd with_receipts"]
  have a: "map eid (os_getAll (expenses_os (snd with_receipts))) = [1]" by code_simp
  have b: "map storeId (attachments (hd (expenses (fst with_receipts)))) = [1, 2]" by code_simp
  have c: "os_getAll (expenses_os (snd (deleteExpense santiago 1 with_receipts))) = []" by code_simp
  have d: "expenses (fst (deleteExpense santiago 1 with_receipts)) = []" by code_simp
  have e: "map_option blob (resolveAttachment (snd with_receipts)
        (attachments (hd (expenses (fst with_receipts))) ! 0)) = Some ''JFIF''" by code_simp
  have f: "map_option blob (resolveAttachment (snd with_receipts)
        (attachments (hd (expenses (fst with_receipts))) ! 1)) = Some ''PDF''" by code_simp
  from t have "resolveAttachment (snd (deleteExpense santiago 1 with_receipts)) r
      = resolveAttachment (snd with_receipts) r" for r
    by simp
  then show ?thesis using a b c d e f by simp
qed

lemma update_without_editId:
  "no_editId s \<Longrightarrow> updateTx rest ev form (s, db) = Inr (s, db)"
  "no_editId sl \<Longrightarrow> updateExpense ev form' (sl, ldb) = Inr (sl, ldb)"
  by (simp_all add: updateTx_def updateExpense_def)

lemma map_of_filter_absent:
  "i \<notin> fst ` set rs \<Longrightarrow> filter (\<lambda>r. fst r \<noteq> i) rs = rs"
  by (induction rs) auto

lemma delete_missing_id:
  assumes "i \<notin> fst ` set (rows (expenses_os db))" "\<forall>e\<in>set (expenses s). eid e \<noteq> i"
  shows "deleteExpense ev i (s, db) = (computeAndRender_legacy ev s, db)"
proof -
  have "filter (\<lambda>e. eid e \<noteq> i) (expenses s) = expenses s" using assms(2) by (simp add: filter_id_conv)
  moreover have "os_delete (expenses_os db) i = expenses_os db"
    using assms(1) by (simp add: os_delete_def map_of_filter_absent)
  ultimately show ?thesis by (simp add: deleteExpense_def)
qed

lemma update_missing_id:
  assumes "\<not> no_editId s" "os_get (transactions_os db) (the (editId s)) = None"
    "trim (e_name form) \<noteq> []" "0 < parseAmount (e_amount form)"
  shows "updateTx rest ev form (s, db) = Inl TypeError"
  using assms by (simp add: updateTx_def Let_def)

lemma update_missing_id_legacy:
  assumes "\<not> no_editId s" "os_get (expenses_os db) (the (editId s)) = None"
    "trim (e_name form) \<noteq> []" "0 < parseAmount (e_amount form)"
  shows "updateExpense ev form (s, db) = Inl TypeError"
  using assms by (simp add: updateExpense_def Let_def)

text \<open>
  C8. With no record staged, an update changes nothing, and a delete of an id that is
  in neither the store nor the mirror only recomputes (the lemmas above). An update of
  a staged id that the store no longer has does not complete: \<open>dbp.get\<close> yields
  \<open>undefined\<close> and the assignment of the first field throws, in \<open>updateTx\<close> whatever
  the rest of the function is, and in \<open>updateExpense\<close>.
\<close>

theorem update_missing_id_throws:
  "updateTx rest santiago valid_tx_edit (empty_state\<lparr>editId := Some 7\<rparr>, empty_db) = Inl TypeError
   \<and> updateExpense santiago valid_edit (empty_state_legacy\<lparr>editId := Some 7\<rparr>, empty_legacy_db)
       = Inl TypeError"
proof -
  have a: "\<not> no_editId (empty_state\<lparr>editId := Some 7\<rparr>)" by code_simp
  have b: "os_get (transactions_os empty_db) (the (editId (empty_state\<lparr>editId := Some 7\<rparr>))) = None"
    by code_simp
  have c: "trim (e_name valid_tx_edit) \<noteq> []" by code_simp
  have d: "0 < parseAmount (e_amount valid_tx_edit)" by code_simp
  have e: "updateExpense santiago valid_edit (empty_state_legacy\<lparr>editId := Some 7\<rparr>, empty_legacy_db)
       = Inl TypeError" by code_simp
  show ?thesis using update_missing_id [OF a b c d] e by simp
qed

subsection \<open>Opening the unified database\<close>

text \<open>C5 as stated fails: where the legacy database holds one expense with two
  attachments, the unified variant opens an empty database and lists nothing.\<close>

theorem upgrade_drops_expenses_counterexample:
  "map name (os_getAll (expenses_os (the (gastosDB legacy_only)))) = [''farmacia'']
   \<and> txs (loadAll (fst (dbp_open legacy_only)) empty_state) = []
   \<and> os_getAll (attachments_os (fst (dbp_open legacy_only))) = []
   \<and> length (os_getAll (attachments_os (the (gastosDB legacy_only)))) = 2"
  by code_simp

text \<open>
  C5, as amended. The unified variant opens a database of its own, \<open>gastosDB_v2\<close>. The
  legacy database is left as it is, with its expenses, attachments and income. When
  \<open>gastosDB_v2\<close> does not exist it is created with both collections empty, so that
  nothing of the legacy data is listed; when it exists it is opened unchanged; opening
  twice is opening once.
\<close>

theorem open_unified_is_fresh:
  "gastosDB (snd (dbp_open st)) = gastosDB st
   \<and> (gastosDB_v2 st = None \<longrightarrow>
        os_getAll (transactions_os (fst (dbp_open st))) = []
        \<and> os_getAll (attachments_os (fst (dbp_open st))) = []
        \<and> txs (loadAll (fst (dbp_open st)) s) = []
        \<and> gastosDB_v2 (snd (dbp_open st)) = Some (fst (dbp_open st)))
   \<and> (\<forall>db. gastosDB_v2 st = Some db \<longrightarrow> dbp_open st = (db, st))
   \<and> dbp_open (snd (dbp_open st)) = dbp_open st"
  by (auto simp: dbp_open_def Let_def loadAll_def os_getAll_def empty_os_def js_sort_def
      split: option.splits)

theorem open_unified_is_fresh_witness:
  "gastosDB (snd (dbp_open legacy_only)) = gastosDB legacy_only
   \<and> txs (loadAll (fst (dbp_open legacy_only)) empty_state) = []
   \<and> dbp_open (snd (dbp_open legacy_only)) = dbp_open legacy_only"
proof -
  have n: "gastosDB_v2 legacy_only = None" by code_simp
  show ?thesis using open_unified_is_fresh [of legacy_only empty_state] n by simp
qed


subsection \<open>The calendar\<close>

lemma int_div_bounds:
  fixes a c :: int
  assumes "0 < c"
  shows "c * (a div c) \<le> a" "a < c * (a div c) + c"
proof -
  have "a = c * (a div c) + a mod c" by simp
  moreover have "0 \<le> a mod c" "a mod c < c" using assms by simp_all
  ultimately show "c * (a div c) \<le> a" "a < c * (a div c) + c" by linarith+
qed

lemma int_div_unique:
  fixes a c q :: int
  assumes "c * q \<le> a" "a < c * q + c" "0 < c"
  shows "a div c = q"
proof -
  have "a = c * q + (a - c * q)" by simp
  moreover have "0 \<le> a - c * q" "a - c * q < c" using assms by simp_all
  ultimately show ?thesis by (rule int_div_pos_eq)
qed

lemma month_day_of_doy:
  fixes doy :: int
  assumes "0 \<le> doy" "doy \<le> 365"
  defines "mp \<equiv> (5 * doy + 2) div 153"
  shows "0 \<le> mp" "mp \<le> 11" "1 \<le> doy - (153 * mp + 2) div 5 + 1" "doy - (153 * mp + 2) div 5 + 1 \<le> 31"
proof -
  have a: "153 * mp \<le> 5 * doy + 2" "5 * doy + 2 < 153 * mp + 153"
    unfolding mp_def using int_div_bounds [of 153 "5 * doy + 2"] by simp_all
  define e where "e = (153 * mp + 2) div 5"
  have b: "5 * e \<le> 153 * mp + 2" "153 * mp + 2 < 5 * e + 5"
    unfolding e_def using int_div_bounds [of 5 "153 * mp + 2"] by simp_all
  show "0 \<le> mp" "mp \<le> 11" using a assms(1,2) by linarith+
  show "1 \<le> doy - (153 * mp + 2) div 5 + 1" using a b unfolding e_def [symmetric] by linarith
  show "doy - (153 * mp + 2) div 5 + 1 \<le> 31" using a b unfolding e_def [symmetric] by linarith
qed

lemma civil_from_days_parts:
  fixes z :: int
  assumes d0_def: "d0 = (z + 719468) mod 146097"
    and n100_def: "n100 = min 3 (d0 div 36524)"
    and d1_def: "d1 = d0 - 36524 * n100"
    and n4_def: "n4 = d1 div 1461"
    and d2_def: "d2 = d1 mod 1461"
    and n1_def: "n1 = min 3 (d2 div 365)"
    and doy_def: "doy = d2 - 365 * n1"
  shows "0 \<le> n100" "n100 \<le> 3" "0 \<le> n4" "n4 \<le> 24" "0 \<le> n1" "n1 \<le> 3" "0 \<le> doy" "doy \<le> 365"
    "d0 = 36524 * n100 + 1461 * n4 + 365 * n1 + doy"
proof -
  have d0: "0 \<le> d0" "d0 < 146097" unfolding d0_def by simp_all
  define q where "q = d0 div 36524"
  have q: "36524 * q \<le> d0" "d0 < 36524 * q + 36524"
    unfolding q_def using int_div_bounds [of 36524 d0] by simp_all
  have n100_q: "n100 = min 3 q" unfolding n100_def q_def by simp
  show n100: "0 \<le> n100" "n100 \<le> 3" using d0 q unfolding n100_q by linarith+
  have d1: "0 \<le> d1" "d1 \<le> 36524" using d0 q unfolding d1_def n100_q by linarith+
  have n4b: "1461 * n4 \<le> d1" "d1 < 1461 * n4 + 1461"
    unfolding n4_def using int_div_bounds [of 1461 d1] by simp_all
  show n4: "0 \<le> n4" "n4 \<le> 24" using d1 n4b by linarith+
  have d2e: "d2 = d1 - 1461 * n4" unfolding d2_def n4_def by (simp add: minus_mult_div_eq_mod)
  have d2: "0 \<le> d2" "d2 < 1461" unfolding d2_def by simp_all
  define r where "r = d2 div 365"
  have r: "365 * r \<le> d2" "d2 < 365 * r + 365"
    unfolding r_def using int_div_bounds [of 365 d2] by simp_all
  have n1_r: "n1 = min 3 r" unfolding n1_def r_def by simp
  show n1: "0 \<le> n1" "n1 \<le> 3" using d2 r unfolding n1_r by linarith+
  show doy: "0 \<le> doy" "doy \<le> 365" using d2 r unfolding doy_def n1_r by linarith+
  show "d0 = 36524 * n100 + 1461 * n4 + 365 * n1 + doy" unfolding d1_def doy_def d2e
    using d1_def d2e doy_def by linarith
qed

lemma civil_roundtrip:
  assumes "civil_from_days z = (y, m, d)"
  shows "days_from_civil y m d = z" "1 \<le> m" "m \<le> 12" "1 \<le> d" "d \<le> 31"
proof -
  define n400 where "n400 = (z + 719468) div 146097"
  define d0 where "d0 = (z + 719468) mod 146097"
  define n100 where "n100 = min 3 (d0 div 36524)"
  define d1 where "d1 = d0 - 36524 * n100"
  define n4 where "n4 = d1 div 1461"
  define d2 where "d2 = d1 mod 1461"
  define n1 where "n1 = min 3 (d2 div 365)"
  define doy where "doy = d2 - 365 * n1"
  define mp where "mp = (5 * doy + 2) div 153"
  define y' where "y' = 400 * n400 + 100 * n100 + 4 * n4 + n1"
  have parts: "0 \<le> n100" "n100 \<le> 3" "0 \<le> n4" "n4 \<le> 24" "0 \<le> n1" "n1 \<le> 3"
    "0 \<le> doy" "doy \<le> 365" "d0 = 36524 * n100 + 1461 * n4 + 365 * n1 + doy"
    by (rule civil_from_days_parts [OF d0_def n100_def d1_def n4_def d2_def n1_def doy_def])+
  have mp: "0 \<le> mp" "mp \<le> 11"
    and dd: "1 \<le> doy - (153 * mp + 2) div 5 + 1" "doy - (153 * mp + 2) div 5 + 1 \<le> 31"
    unfolding mp_def by (rule month_day_of_doy [OF parts(7,8)])+
  define M where "M = (if mp < 10 then mp + 3 else mp - 9)"
  define D where "D = doy - (153 * mp + 2) div 5 + 1"
  define Y where "Y = y' + (if M \<le> 2 then 1 else 0)"
  have "civil_from_days z = (Y, M, D)"
    unfolding civil_from_days_def Let_def Y_def M_def D_def y'_def mp_def doy_def n1_def d2_def
      n4_def d1_def n100_def d0_def n400_def
    by (rule refl)
  with assms have "y = Y" "m = M" "d = D" by simp_all
  then have m: "m = (if mp < 10 then mp + 3 else mp - 9)"
    and d: "d = doy - (153 * mp + 2) div 5 + 1"
    and y: "y = y' + (if m \<le> 2 then 1 else 0)"
    by (simp_all add: Y_def M_def D_def)
  show "1 \<le> m" "m \<le> 12" using mp unfolding m by auto
  show "1 \<le> d" "d \<le> 31" using dd unfolding d by simp_all
  have q4: "y' div 4 = 100 * n400 + 25 * n100 + n4"
    by (rule int_div_unique) (use parts in \<open>simp_all add: y'_def\<close>)
  have q100: "y' div 100 = 4 * n400 + n100"
    by (rule int_div_unique) (use parts in \<open>simp_all add: y'_def\<close>)
  have q400: "y' div 400 = n400"
    by (rule int_div_unique) (use parts in \<open>simp_all add: y'_def\<close>)
  have yy: "(if m \<le> 2 then y - 1 else y) = y'" unfolding y by simp
  have mm: "(if 2 < m then m - 3 else m + 9) = mp" using mp unfolding m by auto
  have z: "z + 719468 = 146097 * n400 + d0" unfolding n400_def d0_def by simp
  have "days_from_civil y m d
      = 365 * y' + y' div 4 - y' div 100 + y' div 400 + (153 * mp + 2) div 5 + d - 1 - 719468"
    unfolding days_from_civil_def Let_def yy mm by simp
  also have "\<dots> = z" unfolding q4 q100 q400 d using z parts(9) by (simp add: y'_def)
  finally show "days_from_civil y m d = z" .
qed






lemma days_from_civil_day: "days_from_civil y m d = days_from_civil y m 1 + d - 1"
  by (simp add: days_from_civil_def Let_def)

lemma MakeDay_civil:
  assumes "civil_from_days z = (y, m, d)"
  shows "MakeDay y (m - 1) k = z - d + k"
proof -
  have m: "1 \<le> m" "m \<le> 12" using civil_roundtrip(2,3) [OF assms] .
  then have "(m - 1) div 12 = 0" "(m - 1) mod 12 + 1 = m" by simp_all
  then have "MakeDay y (m - 1) k = days_from_civil y m 1 + k - 1" by (simp add: MakeDay_def)
  moreover have "days_from_civil y m 1 = z - d + 1"
    using civil_roundtrip(1) [OF assms] days_from_civil_day [of y m d] by simp
  ultimately show ?thesis by simp
qed

lemma MakeDay_fields:
  "MakeDay (YearFromTime l) (MonthFromTime l) k = Day l - DateFromTime l + k"
proof -
  obtain y m d where c: "civil_from_days (Day l) = (y, m, d)" by (cases "civil_from_days (Day l)")
  show ?thesis using MakeDay_civil [OF c] by (simp add: YearFromTime_def MonthFromTime_def DateFromTime_def c)
qed

lemma Day_MakeDate: "0 \<le> t \<Longrightarrow> t < msPerDay \<Longrightarrow> Day (MakeDate k t) = k"
  by (simp add: Day_def MakeDate_def msPerDay_def)

lemma LocalTime_UTC [simp]: "LocalTime ev (UTC ev t) = t"
  by (simp add: LocalTime_def UTC_def)

lemma setDate_back:
  "setDate ev t (getDate ev t - n) = t - n * msPerDay"
proof -
  let ?l = "LocalTime ev t"
  have "MakeDate (Day ?l - n) (TimeWithinDay ?l) = ?l - n * msPerDay"
    by (simp add: MakeDate_def Day_def TimeWithinDay_def algebra_simps)
  then show ?thesis
    by (simp add: setDate_def getDate_def Let_def MakeDay_fields LocalTime_def UTC_def)
qed

lemma endOfDay_now: "endOfDay ev (now ev) = local_day ev * msPerDay + (msPerDay - 1) + tzOffset ev * 60000"
  by (simp add: endOfDay_def setHours_def local_day_def UTC_def MakeDate_def MakeTime_def msPerDay_def)

lemma startOfDay_now: "startOfDay ev (now ev) = local_day ev * msPerDay + tzOffset ev * 60000"
  by (simp add: startOfDay_def setHours_def local_day_def UTC_def MakeDate_def MakeTime_def)

lemma today_range:
  "today (ranges ev) = \<lparr>start = local_day ev * msPerDay + tzOffset ev * 60000,
      end' = local_day ev * msPerDay + (msPerDay - 1) + tzOffset ev * 60000\<rparr>"
  by (simp add: ranges_def Let_def endOfDay_now startOfDay_now)

lemma week_range:
  "week (ranges ev) = \<lparr>start = (local_day ev - 6) * msPerDay + tzOffset ev * 60000,
      end' = local_day ev * msPerDay + (msPerDay - 1) + tzOffset ev * 60000\<rparr>"
proof -
  let ?e = "endOfDay ev (now ev)"
  have "setDate ev ?e (getDate ev ?e - 6) = ?e - 6 * msPerDay" by (rule setDate_back)
  also have "\<dots> = UTC ev (MakeDate (local_day ev - 6) (msPerDay - 1))"
    by (simp add: endOfDay_now UTC_def MakeDate_def algebra_simps)
  finally have "setHours ev (setDate ev ?e (getDate ev ?e - 6)) 0 0 0 0
      = UTC ev (MakeDate (local_day ev - 6) 0)"
    by (simp add: setHours_def Day_MakeDate msPerDay_def MakeTime_def)
  then show ?thesis
    by (simp add: ranges_def Let_def endOfDay_now UTC_def MakeDate_def)
qed

lemma Date_parse_midnight:
  assumes "Date_parse s = Some t"
  shows "t = Day t * msPerDay"
proof -
  from assms obtain k where "t = MakeDate k 0"
    by (auto simp: Date_parse_def Let_def split: list.splits if_splits)
  then show ?thesis by (simp add: MakeDate_def Day_def msPerDay_def)
qed

lemma within_days:
  assumes "Date_parse s = Some t" "- 1440 < tzOffset ev" "tzOffset ev \<le> 0"
  shows "within_js s (a * msPerDay + tzOffset ev * 60000) (b * msPerDay + (msPerDay - 1) + tzOffset ev * 60000)
         = (a \<le> Day t \<and> Day t \<le> b)"
proof -
  have t: "t = Day t * msPerDay" using assms(1) by (rule Date_parse_midnight)
  define k where "k = Day t"
  have "within_js s (a * msPerDay + tzOffset ev * 60000) (b * msPerDay + (msPerDay - 1) + tzOffset ev * 60000)
      = (a * msPerDay + tzOffset ev * 60000 \<le> k * msPerDay
         \<and> k * msPerDay \<le> b * msPerDay + (msPerDay - 1) + tzOffset ev * 60000)"
    using t by (simp add: within_js_def assms(1) k_def)
  also have "\<dots> = (a \<le> k \<and> k \<le> b)" using assms(2,3) unfolding msPerDay_def by auto
  finally show ?thesis unfolding k_def .
qed







lemma within_days_west:
  assumes "Date_parse s = Some t" "0 < tzOffset ev" "tzOffset ev < 1440"
  shows "within_js s (a * msPerDay + tzOffset ev * 60000) (b * msPerDay + (msPerDay - 1) + tzOffset ev * 60000)
         = (a + 1 \<le> Day t \<and> Day t \<le> b + 1)"
proof -
  have t: "t = Day t * msPerDay" using assms(1) by (rule Date_parse_midnight)
  define k where "k = Day t"
  have "within_js s (a * msPerDay + tzOffset ev * 60000) (b * msPerDay + (msPerDay - 1) + tzOffset ev * 60000)
      = (a * msPerDay + tzOffset ev * 60000 \<le> k * msPerDay
         \<and> k * msPerDay \<le> b * msPerDay + (msPerDay - 1) + tzOffset ev * 60000)"
    using t by (simp add: within_js_def assms(1) k_def)
  also have "\<dots> = (a + 1 \<le> k \<and> k \<le> b + 1)" using assms(2,3) unfolding msPerDay_def by auto
  finally show ?thesis unfolding k_def .
qed

subsection \<open>Period windows and sums\<close>

lemma sumRange_cong:
  assumes "\<And>t. t \<in> set ts \<Longrightarrow> ttype t = ''expense'' \<Longrightarrow> within_js (date t) (start rg) (end' rg) = P t"
  shows "sumRange ts rg = sum_list (map amount (filter (\<lambda>t. ttype t = ''expense'' \<and> P t) ts))"
proof -
  have "filter (\<lambda>t. ttype t = ''expense'' \<and> within_js (date t) (start rg) (end' rg)) ts
      = filter (\<lambda>t. ttype t = ''expense'' \<and> P t) ts"
    using assms by (intro filter_cong) auto
  then show ?thesis by (simp add: sumRange_def sum_amounts_sum_list)
qed

lemma within_days':
  assumes "- 1440 < tzOffset ev" "tzOffset ev \<le> 0"
  shows "within_js s (a * msPerDay + tzOffset ev * 60000) (b * msPerDay + (msPerDay - 1) + tzOffset ev * 60000)
         = (case date_day s of None \<Rightarrow> False | Some k \<Rightarrow> a \<le> k \<and> k \<le> b)"
proof (cases "Date_parse s")
  case None
  then show ?thesis by (simp add: within_js_def date_day_def)
next
  case (Some t)
  then show ?thesis using within_days [OF Some assms] by (simp add: date_day_def)
qed

lemma within_days_west':
  assumes "0 < tzOffset ev" "tzOffset ev < 1440"
  shows "within_js s (a * msPerDay + tzOffset ev * 60000) (b * msPerDay + (msPerDay - 1) + tzOffset ev * 60000)
         = (case date_day s of None \<Rightarrow> False | Some k \<Rightarrow> a + 1 \<le> k \<and> k \<le> b + 1)"
proof (cases "Date_parse s")
  case None
  then show ?thesis by (simp add: within_js_def date_day_def)
next
  case (Some t)
  then show ?thesis using within_days_west [OF Some assms] by (simp add: date_day_def)
qed

text \<open>At UTC and east of it, the sums of today and of the week are the sums over the
  expenses dated the local day, and the seven days that end with it.\<close>

lemma period_sums_east_of_utc:
  assumes "- 1440 < tzOffset ev" "tzOffset ev \<le> 0"
  shows "statToday (computeAndRender ev s)
      = sum_list (map amount (filter (\<lambda>t. ttype t = ''expense''
            \<and> date_day (date t) = Some (local_day ev)) (txs s)))"
    and "statWeek (computeAndRender ev s)
      = sum_list (map amount (filter (\<lambda>t. ttype t = ''expense'' \<and>
            (case date_day (date t) of None \<Rightarrow> False
             | Some k \<Rightarrow> local_day ev - 6 \<le> k \<and> k \<le> local_day ev)) (txs s)))"
proof -
  have "statToday (computeAndRender ev s) = sumRange (txs s) (today (ranges ev))"
    by (simp add: computeAndRender_def Let_def)
  also have "\<dots> = sum_list (map amount (filter (\<lambda>t. ttype t = ''expense''
            \<and> date_day (date t) = Some (local_day ev)) (txs s)))"
    by (rule sumRange_cong) (auto simp: today_range within_days' [OF assms] split: option.splits)
  finally show "statToday (computeAndRender ev s)
      = sum_list (map amount (filter (\<lambda>t. ttype t = ''expense''
            \<and> date_day (date t) = Some (local_day ev)) (txs s)))" .
  have "statWeek (computeAndRender ev s) = sumRange (txs s) (week (ranges ev))"
    by (simp add: computeAndRender_def Let_def)
  also have "\<dots> = sum_list (map amount (filter (\<lambda>t. ttype t = ''expense'' \<and>
            (case date_day (date t) of None \<Rightarrow> False
             | Some k \<Rightarrow> local_day ev - 6 \<le> k \<and> k \<le> local_day ev)) (txs s)))"
    by (rule sumRange_cong) (simp add: week_range within_days' [OF assms])
  finally show "statWeek (computeAndRender ev s)
      = sum_list (map amount (filter (\<lambda>t. ttype t = ''expense'' \<and>
            (case date_day (date t) of None \<Rightarrow> False
             | Some k \<Rightarrow> local_day ev - 6 \<le> k \<and> k \<le> local_day ev)) (txs s)))" .
qed

text \<open>West of UTC both windows select the dates one day later: the sum of today is the
  sum over the expenses dated tomorrow.\<close>

lemma period_sums_west_of_utc:
  assumes "0 < tzOffset ev" "tzOffset ev < 1440"
  shows "statToday (computeAndRender ev s)
      = sum_list (map amount (filter (\<lambda>t. ttype t = ''expense''
            \<and> date_day (date t) = Some (local_day ev + 1)) (txs s)))"
    and "statWeek (computeAndRender ev s)
      = sum_list (map amount (filter (\<lambda>t. ttype t = ''expense'' \<and>
            (case date_day (date t) of None \<Rightarrow> False
             | Some k \<Rightarrow> local_day ev - 5 \<le> k \<and> k \<le> local_day ev + 1)) (txs s)))"
proof -
  have "statToday (computeAndRender ev s) = sumRange (txs s) (today (ranges ev))"
    by (simp add: computeAndRender_def Let_def)
  also have "\<dots> = sum_list (map amount (filter (\<lambda>t. ttype t = ''expense''
            \<and> date_day (date t) = Some (local_day ev + 1)) (txs s)))"
    by (rule sumRange_cong)
      (auto simp: today_range within_days_west' [OF assms] split: option.splits)
  finally show "statToday (computeAndRender ev s)
      = sum_list (map amount (filter (\<lambda>t. ttype t = ''expense''
            \<and> date_day (date t) = Some (local_day ev + 1)) (txs s)))" .
  have "statWeek (computeAndRender ev s) = sumRange (txs s) (week (ranges ev))"
    by (simp add: computeAndRender_def Let_def)
  also have "\<dots> = sum_list (map amount (filter (\<lambda>t. ttype t = ''expense'' \<and>
            (case date_day (date t) of None \<Rightarrow> False
             | Some k \<Rightarrow> local_day ev - 5 \<le> k \<and> k \<le> local_day ev + 1)) (txs s)))"
    by (rule sumRange_cong)
      (auto simp: week_range within_days_west' [OF assms] split: option.splits)
  finally show "statWeek (computeAndRender ev s)
      = sum_list (map amount (filter (\<lambda>t. ttype t = ''expense'' \<and>
            (case date_day (date t) of None \<Rightarrow> False
             | Some k \<Rightarrow> local_day ev - 5 \<le> k \<and> k \<le> local_day ev + 1)) (txs s)))" .
qed

text \<open>
  C3. The sums of \<open>computeAndRender\<close> compare an instant of UTC with windows of local
  time: \<open>new Date(dateISO)\<close> is midnight UTC of the date, the windows start and end at
  local midnights. At UTC and east of it the sums of today and of the week are the ones
  claimed; west of it they are the sums over the dates one day later (the two lemmas
  above). In Santiago at 10:00 on 2024-03-10 a record created with the default date is
  dated 2024-03-10 and is missing from the sum of today; the week takes the records of
  2024-03-11 and leaves out those of 2024-03-04.
\<close>

theorem today_sum_misses_today:
  "todayStr santiago = ''2024-03-10''
   \<and> getFullYear santiago (now santiago) = 2024 \<and> getMonth santiago (now santiago) = 2
   \<and> getDate santiago (now santiago) = 10
   \<and> map date (txs (created_today santiago)) = [''2024-03-10'']
   \<and> statToday (computeAndRender santiago (created_today santiago)) = 0
   \<and> statToday (computeAndRender utc_machine (created_today utc_machine)) = 1000
   \<and> within_js ''2024-03-11'' (start (week (ranges santiago))) (end' (week (ranges santiago)))
   \<and> \<not> within_js ''2024-03-04'' (start (week (ranges santiago))) (end' (week (ranges santiago)))
   \<and> within_js ''2024-03-04'' (start (week (ranges utc_machine))) (end' (week (ranges utc_machine)))"
  by code_simp




end
